theory Spec2Isabelle
  imports Complex_Main "HOL-Library.Log_Nat"
begin

section \<open>JavaScript numbers\<close>

text \<open>
  A JavaScript number is an IEEE-754 binary64 value. A finite one is written \<open>Fin q\<close>,
  with \<open>q\<close> the rational it denotes; the other values are the two infinities and NaN.
  Every arithmetic operation computes the exact result and rounds it with \<open>fl\<close>.
  The two zeros are identified. The sign of a zero shows only in a division by it, and
  for components in the documented range from 0 to 255 no divisor of the library is a
  negative zero: the divisors are literals, the difference \<open>max - min\<close>, the quotient
  \<open>max / 255\<close> and twice the luminosity or its difference from 2, and the constructor
  replaces a zero argument of either sign by the literal \<open>0\<close>.
\<close>

datatype jsnum = Fin rat | PInf | NInf | NaN

definition pow2 :: "int \<Rightarrow> rat" where
  "pow2 k = (if 0 \<le> k then 2 ^ nat k else 1 / 2 ^ nat (- k))"

text \<open>
  \<open>ilog2 q\<close> is the binary exponent of \<open>q \<noteq> 0\<close>, the integer \<open>e\<close> with
  \<open>2 ^ e \<le> \<bar>q\<bar> < 2 ^ (e + 1)\<close>, read off the bit length of an integer next to
  \<open>\<bar>q\<bar>\<close> or to its inverse.
\<close>

definition ilog2 :: "rat \<Rightarrow> int" where
  "ilog2 q = (if 1 \<le> \<bar>q\<bar> then bitlen \<lfloor>\<bar>q\<bar>\<rfloor> - 1 else - bitlen (\<lceil>1 / \<bar>q\<bar>\<rceil> - 1))"

definition round_even :: "rat \<Rightarrow> int" where
  "round_even n = (let f = \<lfloor>n\<rfloor>; d = n - of_int f
     in if d < 1 / 2 then f else if 1 / 2 < d then f + 1 else if even f then f else f + 1)"

text \<open>
  \<open>fl q\<close> rounds the exact result \<open>q\<close> of an operation to binary64, to nearest with ties
  to even: 53 significant bits, the spacing never below \<open>2 ^ - 1074\<close> (subnormals), and
  an infinity when the rounded magnitude reaches \<open>2 ^ 1024\<close>.
\<close>

definition fl :: "rat \<Rightarrow> jsnum" where
  "fl q = (if q = 0 then Fin 0 else
     let u = pow2 (max (ilog2 q - 52) (- 1074));
         m = of_int (round_even (\<bar>q\<bar> / u)) * u
     in if 1024 \<le> ilog2 m then (if 0 < q then PInf else NInf)
        else Fin (if 0 < q then m else - m))"

fun jneg :: "jsnum \<Rightarrow> jsnum" where
  "jneg (Fin a) = Fin (- a)"
| "jneg PInf = NInf"
| "jneg NInf = PInf"
| "jneg NaN = NaN"

fun jadd :: "jsnum \<Rightarrow> jsnum \<Rightarrow> jsnum" where
  "jadd (Fin a) (Fin b) = fl (a + b)"
| "jadd NaN y = NaN"
| "jadd x NaN = NaN"
| "jadd PInf NInf = NaN"
| "jadd NInf PInf = NaN"
| "jadd PInf y = PInf"
| "jadd NInf y = NInf"
| "jadd (Fin a) y = y"

definition jsub :: "jsnum \<Rightarrow> jsnum \<Rightarrow> jsnum" where
  "jsub x y = jadd x (jneg y)"

definition jsign :: "jsnum \<Rightarrow> int" where
  "jsign x = (case x of Fin a \<Rightarrow> (if 0 < a then 1 else if a < 0 then - 1 else 0)
                | PInf \<Rightarrow> 1 | NInf \<Rightarrow> - 1 | NaN \<Rightarrow> 0)"

fun jmul :: "jsnum \<Rightarrow> jsnum \<Rightarrow> jsnum" where
  "jmul (Fin a) (Fin b) = fl (a * b)"
| "jmul NaN y = NaN"
| "jmul x NaN = NaN"
| "jmul x y = (let s = jsign x * jsign y
               in if s = 0 then NaN else if 0 < s then PInf else NInf)"

fun jdiv :: "jsnum \<Rightarrow> jsnum \<Rightarrow> jsnum" where
  "jdiv (Fin a) (Fin b) =
     (if b = 0 then (if a = 0 then NaN else if 0 < a then PInf else NInf) else fl (a / b))"
| "jdiv NaN y = NaN"
| "jdiv x NaN = NaN"
| "jdiv (Fin a) y = Fin 0"
| "jdiv x (Fin b) = (if 0 \<le> jsign x * (if b < 0 then - 1 else 1) then PInf else NInf)"
| "jdiv x y = NaN"

text \<open>
  The operator \<open>%\<close> is the remainder of the truncated division: the result has the sign
  of the dividend and is exact.
\<close>

definition trunc :: "rat \<Rightarrow> int" where
  "trunc q = (if 0 \<le> q then \<lfloor>q\<rfloor> else \<lceil>q\<rceil>)"

fun jmod :: "jsnum \<Rightarrow> jsnum \<Rightarrow> jsnum" where
  "jmod (Fin a) (Fin b) = (if b = 0 then NaN else Fin (a - b * of_int (trunc (a / b))))"
| "jmod (Fin a) PInf = Fin a"
| "jmod (Fin a) NInf = Fin a"
| "jmod x y = NaN"

fun jlt :: "jsnum \<Rightarrow> jsnum \<Rightarrow> bool" where
  "jlt (Fin a) (Fin b) = (a < b)"
| "jlt NaN y = False"
| "jlt x NaN = False"
| "jlt x NInf = False"
| "jlt PInf y = False"
| "jlt x y = True"

text \<open>Strict equality \<open>===\<close> on numbers: NaN equals nothing.\<close>

definition jseq :: "jsnum \<Rightarrow> jsnum \<Rightarrow> bool" where
  "jseq x y \<longleftrightarrow> x \<noteq> NaN \<and> x = y"

definition jle :: "jsnum \<Rightarrow> jsnum \<Rightarrow> bool" where
  "jle x y \<longleftrightarrow> jlt x y \<or> jseq x y"

fun Math_abs :: "jsnum \<Rightarrow> jsnum" where
  "Math_abs (Fin a) = Fin \<bar>a\<bar>"
| "Math_abs NaN = NaN"
| "Math_abs x = PInf"

text \<open>\<open>Math.round\<close> is \<open>floor (x + 0.5)\<close>, computed exactly: a tie goes up.\<close>

fun Math_round :: "jsnum \<Rightarrow> jsnum" where
  "Math_round (Fin a) = Fin (of_int \<lfloor>a + 1 / 2\<rfloor>)"
| "Math_round x = x"

definition jmax :: "jsnum \<Rightarrow> jsnum \<Rightarrow> jsnum" where
  "jmax x y = (if x = NaN \<or> y = NaN then NaN else if jlt x y then y else x)"

definition jmin :: "jsnum \<Rightarrow> jsnum \<Rightarrow> jsnum" where
  "jmin x y = (if x = NaN \<or> y = NaN then NaN else if jlt y x then y else x)"

definition Math_max :: "jsnum list \<Rightarrow> jsnum" where
  "Math_max xs = foldl jmax NInf xs"

definition Math_min :: "jsnum list \<Rightarrow> jsnum" where
  "Math_min xs = foldl jmin PInf xs"

text \<open>\<open>ToBoolean\<close> of a number: \<open>0\<close> and NaN are falsy.\<close>

definition truthy :: "jsnum \<Rightarrow> bool" where
  "truthy x \<longleftrightarrow> x \<noteq> Fin 0 \<and> x \<noteq> NaN"

text \<open>
  \<open>a || d\<close> for an argument \<open>a\<close> that is a number or was omitted (\<open>None\<close>, the value
  \<open>undefined\<close>, which is falsy).
\<close>

definition or_else :: "jsnum option \<Rightarrow> jsnum \<Rightarrow> jsnum" where
  "or_else a d = (case a of None \<Rightarrow> d | Some x \<Rightarrow> if truthy x then x else d)"

text \<open>\<open>xs.indexOf(x)\<close>: the first index whose element is \<open>=== x\<close>, or \<open>- 1\<close>.\<close>

fun indexOf :: "jsnum list \<Rightarrow> jsnum \<Rightarrow> int" where
  "indexOf [] x = - 1"
| "indexOf (y # ys) x =
     (if jseq y x then 0 else (let i = indexOf ys x in if i < 0 then - 1 else i + 1))"

text \<open>\<open>xs[i]\<close>: out of range the value is \<open>undefined\<close>.\<close>

definition at_index :: "'a list \<Rightarrow> int \<Rightarrow> 'a option" where
  "at_index xs i = (if 0 \<le> i \<and> i < int (length xs) then Some (xs ! nat i) else None)"

datatype jserror = TypeError

section \<open>The class Color\<close>

record color =
  RED :: jsnum
  GREEN :: jsnum
  BLUE :: jsnum
  HSV_HUE :: jsnum
  HSV_VAL :: jsnum
  HSV_SAT :: jsnum
  HSL_HUE :: jsnum
  HSL_LUM :: jsnum
  HSL_SAT :: jsnum

text \<open>
  The hue: the three formulas are the elements of an array, indexed by the position of
  \<open>_max\<close> in \<open>$rgb\<close>. Were \<open>indexOf\<close> to answer \<open>- 1\<close>, the element would be
  \<open>undefined\<close> and \<open>.apply\<close> on it a TypeError.
\<close>

definition hue_formulas :: "jsnum \<Rightarrow> (jsnum \<Rightarrow> jsnum \<Rightarrow> jsnum \<Rightarrow> jsnum) list" where
  "hue_formulas chroma =
     [ \<lambda>r g b. jmul (jmod (jdiv (jsub g b) chroma) (Fin 6)) (Fin 60)
     , \<lambda>r g b. jmul (jadd (jdiv (jsub b r) chroma) (Fin 2)) (Fin 60)
     , \<lambda>r g b. jmul (jadd (jdiv (jsub r g) chroma) (Fin 4)) (Fin 60) ]"

definition hsv_hue :: "jsnum \<Rightarrow> jsnum \<Rightarrow> jsnum \<Rightarrow> jsnum \<Rightarrow> jsnum \<Rightarrow> jserror + jsnum" where
  "hsv_hue R G B mx chroma =
     (if jseq chroma (Fin 0) then Inr (Fin 0) else
      let rgb = [jdiv R (Fin 255), jdiv G (Fin 255), jdiv B (Fin 255)]
      in case at_index (hue_formulas chroma) (indexOf rgb mx) of
           None \<Rightarrow> Inl TypeError
         | Some f \<Rightarrow> Inr (f (rgb ! 0) (rgb ! 1) (rgb ! 2)))"

definition hsl_sat :: "jsnum \<Rightarrow> jsnum \<Rightarrow> jsnum" where
  "hsl_sat chroma lum =
     (if jseq chroma (Fin 0) then Fin 0
      else jdiv chroma (if jle lum (Fin (1 / 2)) then jmul (Fin 2) lum
                        else jsub (Fin 2) (jmul (Fin 2) lum)))"

definition Color :: "jsnum option \<Rightarrow> jsnum option \<Rightarrow> jsnum option \<Rightarrow> jserror + color" where
  "Color red grn blu =
     (let R = or_else red (Fin 0);
          G = or_else grn R;
          B = or_else blu R;
          mx = jdiv (Math_max [R, G, B]) (Fin 255);
          mn = jdiv (Math_min [R, G, B]) (Fin 255);
          chroma = jsub mx mn
      in case hsv_hue R G B mx chroma of
           Inl e \<Rightarrow> Inl e
         | Inr hue \<Rightarrow>
             let val = mx;
                 sat = jdiv chroma val;
                 lum = jmul (Fin (1 / 2)) (jadd mx mn)
             in Inr \<lparr> RED = R, GREEN = G, BLUE = B,
                      HSV_HUE = hue, HSV_VAL = val, HSV_SAT = sat,
                      HSL_HUE = hue, HSL_LUM = lum, HSL_SAT = hsl_sat chroma lum \<rparr>)"

subsection \<open>Accessors\<close>

definition red :: "color \<Rightarrow> jsnum" where "red this = RED this"
definition green :: "color \<Rightarrow> jsnum" where "green this = GREEN this"
definition blue :: "color \<Rightarrow> jsnum" where "blue this = BLUE this"
definition hsvHue :: "color \<Rightarrow> jsnum" where "hsvHue this = HSV_HUE this"
definition hsvSat :: "color \<Rightarrow> jsnum" where "hsvSat this = HSV_SAT this"
definition hsvVal :: "color \<Rightarrow> jsnum" where "hsvVal this = HSV_VAL this"
definition hslHue :: "color \<Rightarrow> jsnum" where "hslHue this = HSL_HUE this"
definition hslSat :: "color \<Rightarrow> jsnum" where "hslSat this = HSL_SAT this"
definition hslLum :: "color \<Rightarrow> jsnum" where "hslLum this = HSL_LUM this"

definition rgb :: "color \<Rightarrow> jsnum list" where
  "rgb this = [red this, green this, blue this]"

definition hsv :: "color \<Rightarrow> jsnum list" where
  "hsv this = [hsvHue this, hsvSat this, hsvVal this]"

definition hsl :: "color \<Rightarrow> jsnum list" where
  "hsl this = [hslHue this, hslSat this, hslLum this]"

subsection \<open>Strings\<close>

text \<open>
  A JavaScript string is a sequence of UTF-16 code units, here natural numbers;
  \<open>ascii\<close> writes a literal.
\<close>

type_synonym jsstring = "nat list"

definition ascii :: "string \<Rightarrow> jsstring" where
  "ascii s = map of_char s"

text \<open>\<open>s.slice(start, stop)\<close>: a negative index counts from the end.\<close>

definition slice :: "'a list \<Rightarrow> int \<Rightarrow> int \<Rightarrow> 'a list" where
  "slice s start stop =
     (let len = int (length s);
          from = (if start < 0 then max (len + start) 0 else min start len);
          to = (if stop < 0 then max (len + stop) 0 else min stop len)
      in take (nat (to - from)) (drop (nat from) s))"

text \<open>
  \<open>s.charAt(pos)\<close>: the position is truncated to an integer (NaN counts as 0); out of
  range the result is the empty string.
\<close>

definition charAt :: "jsstring \<Rightarrow> jsnum \<Rightarrow> jsstring" where
  "charAt s pos =
     (case pos of
        Fin q \<Rightarrow> (let i = trunc q
                   in if 0 \<le> i \<and> i < int (length s) then [s ! nat i] else [])
      | NaN \<Rightarrow> take 1 s
      | PInf \<Rightarrow> []
      | NInf \<Rightarrow> [])"

text \<open>\<open>s.split(',')\<close> for a one-character separator: never an empty array.\<close>

fun split :: "nat \<Rightarrow> jsstring \<Rightarrow> jsstring list" where
  "split sep [] = [[]]"
| "split sep (u # s) =
     (if u = sep then [] # split sep s
      else (case split sep s of [] \<Rightarrow> [[u]] | p # ps \<Rightarrow> (u # p) # ps))"

subsection \<open>Strings to numbers\<close>

text \<open>
  The conversion the language applies to a string operand of \<open>+\<close> (unary), \<open>*\<close>,
  \<open>/\<close>, \<open>-\<close> and of a comparison with a number (StringToNumber of ECMAScript): white
  space is trimmed; the empty string is 0; a decimal literal with an optional sign,
  fraction and exponent, \<open>Infinity\<close> with an optional sign, or an unsigned binary, octal
  or hexadecimal integer literal is its value, rounded to the nearest number; anything
  else is NaN.
\<close>

definition isStrWhiteSpaceChar :: "nat \<Rightarrow> bool" where
  "isStrWhiteSpaceChar u \<longleftrightarrow>
     u \<in> {9, 10, 11, 12, 13, 32, 160, 5760, 8232, 8233, 8239, 8287, 12288, 65279}
     \<or> (8192 \<le> u \<and> u \<le> 8202)"

definition trimString :: "jsstring \<Rightarrow> jsstring" where
  "trimString s = rev (dropWhile isStrWhiteSpaceChar (rev (dropWhile isStrWhiteSpaceChar s)))"

definition digitValue :: "nat \<Rightarrow> nat" where
  "digitValue u = (if 48 \<le> u \<and> u \<le> 57 then u - 48
                   else if 97 \<le> u \<and> u \<le> 102 then u - 87
                   else if 65 \<le> u \<and> u \<le> 70 then u - 55
                   else 16)"

definition isDecimalDigit :: "nat \<Rightarrow> bool" where
  "isDecimalDigit u \<longleftrightarrow> digitValue u < 10"

definition digitsValue :: "nat \<Rightarrow> jsstring \<Rightarrow> nat" where
  "digitsValue radix ds = foldl (\<lambda>acc u. acc * radix + digitValue u) 0 ds"

definition NonDecimalIntegerLiteral :: "jsstring \<Rightarrow> rat option" where
  "NonDecimalIntegerLiteral s =
     (let radix = (if take 2 s \<in> {ascii ''0x'', ascii ''0X''} then 16
                   else if take 2 s \<in> {ascii ''0o'', ascii ''0O''} then 8
                   else if take 2 s \<in> {ascii ''0b'', ascii ''0B''} then 2
                   else 0);
          ds = drop 2 s
      in if radix \<noteq> 0 \<and> ds \<noteq> [] \<and> list_all (\<lambda>u. digitValue u < radix) ds
         then Some (of_nat (digitsValue radix ds)) else None)"

definition SignedInteger :: "jsstring \<Rightarrow> int option" where
  "SignedInteger s =
     (let ds = (if take 1 s \<in> {ascii ''+'', ascii ''-''} then drop 1 s else s)
      in if ds \<noteq> [] \<and> list_all isDecimalDigit ds
         then Some ((if take 1 s = ascii ''-'' then - 1 else 1) * int (digitsValue 10 ds))
         else None)"

definition pow10 :: "int \<Rightarrow> rat" where
  "pow10 k = (if 0 \<le> k then 10 ^ nat k else 1 / 10 ^ nat (- k))"

definition StrUnsignedDecimalLiteral :: "jsstring \<Rightarrow> rat option" where
  "StrUnsignedDecimalLiteral s =
     (let ip = takeWhile isDecimalDigit s;
          r1 = dropWhile isDecimalDigit s;
          dot = (take 1 r1 = ascii ''.'');
          fp = (if dot then takeWhile isDecimalDigit (drop 1 r1) else []);
          r2 = (if dot then dropWhile isDecimalDigit (drop 1 r1) else r1);
          mant = of_nat (digitsValue 10 (ip @ fp)) / 10 ^ length fp
      in if ip = [] \<and> fp = [] then None
         else if r2 = [] then Some mant
         else if take 1 r2 \<in> {ascii ''e'', ascii ''E''}
         then (case SignedInteger (drop 1 r2) of
                 None \<Rightarrow> None
               | Some e \<Rightarrow> Some (mant * pow10 e))
         else None)"

definition StrDecimalLiteral :: "jsstring \<Rightarrow> jsnum" where
  "StrDecimalLiteral s =
     (let neg = (take 1 s = ascii ''-'');
          body = (if take 1 s \<in> {ascii ''+'', ascii ''-''} then drop 1 s else s)
      in if body = ascii ''Infinity'' then (if neg then NInf else PInf)
         else (case StrUnsignedDecimalLiteral body of
                 None \<Rightarrow> NaN
               | Some q \<Rightarrow> fl (if neg then - q else q)))"

definition StringToNumber :: "jsstring \<Rightarrow> jsnum" where
  "StringToNumber str =
     (let s = trimString str
      in if s = [] then Fin 0
         else (case NonDecimalIntegerLiteral s of
                 Some q \<Rightarrow> fl q
               | None \<Rightarrow> StrDecimalLiteral s))"

subsection \<open>Methods\<close>

definition complement :: "color \<Rightarrow> jserror + color" where
  "complement this =
     Color (Some (jsub (Fin 255) (red this)))
           (Some (jsub (Fin 255) (green this)))
           (Some (jsub (Fin 255) (blue this)))"

text \<open>
  The two factories that convert from hue, saturation and value or luminosity. When no
  branch of the chain sets the variable \<open>rgb\<close> (here \<open>sel\<close>) it stays \<open>undefined\<close>,
  and \<open>rgb.map\<close> is a TypeError.
\<close>

definition sextant :: "jsnum \<Rightarrow> jsnum \<Rightarrow> jsnum \<Rightarrow> jsnum list option" where
  "sextant hue c x =
     (if jle (Fin 0) hue \<and> jlt hue (Fin 60) then Some [c, x, Fin 0]
      else if jle (Fin 60) hue \<and> jlt hue (Fin 120) then Some [x, c, Fin 0]
      else if jle (Fin 120) hue \<and> jlt hue (Fin 180) then Some [Fin 0, c, x]
      else if jle (Fin 180) hue \<and> jlt hue (Fin 240) then Some [Fin 0, x, c]
      else if jle (Fin 240) hue \<and> jlt hue (Fin 300) then Some [x, Fin 0, c]
      else if jle (Fin 300) hue \<and> jlt hue (Fin 360) then Some [c, Fin 0, x]
      else None)"

definition from_sextant :: "jsnum list option \<Rightarrow> jsnum \<Rightarrow> jserror + color" where
  "from_sextant sel m =
     (case sel of
        None \<Rightarrow> Inl TypeError
      | Some els \<Rightarrow>
          (let rounded = map (\<lambda>el. Math_round (jmul (jadd el m) (Fin 255))) els
           in Color (at_index rounded 0) (at_index rounded 1) (at_index rounded 2)))"

definition fromHSV :: "jsnum \<Rightarrow> jsnum \<Rightarrow> jsnum \<Rightarrow> jserror + color" where
  "fromHSV hue sat val =
     (let c = jmul sat val;
          x = jmul c (jsub (Fin 1) (Math_abs (jsub (jmod (jdiv hue (Fin 60)) (Fin 2)) (Fin 1))));
          m = jsub val c
      in from_sextant (sextant hue c x) m)"

definition fromHSL :: "jsnum \<Rightarrow> jsnum \<Rightarrow> jsnum \<Rightarrow> jserror + color" where
  "fromHSL hue sat lum =
     (let c = jmul sat (jsub (Fin 1) (Math_abs (jsub (jmul (Fin 2) lum) (Fin 1))));
          x = jmul c (jsub (Fin 1) (Math_abs (jsub (jmod (jdiv hue (Fin 60)) (Fin 2)) (Fin 1))));
          m = jsub lum (jdiv c (Fin 2))
      in from_sextant (sextant hue c x) m)"

definition rotate_color :: "color \<Rightarrow> jsnum \<Rightarrow> jserror + color" where
  "rotate_color this a =
     (let newhue = jmod (jadd (hsvHue this) a) (Fin 360)
      in fromHSV newhue (hsvSat this) (hsvVal this))"

definition invert :: "color \<Rightarrow> jserror + color" where
  "invert this = rotate_color this (Fin 180)"

text \<open>
  \<open>mix\<close>: an omitted weight is \<open>None\<close>. The first line of the method keeps a weight
  that is \<open>0\<close> and replaces any other falsy weight (omitted, NaN) by 0.5.
\<close>

definition average :: "jsnum \<Rightarrow> jsnum \<Rightarrow> jsnum \<Rightarrow> jsnum" where
  "average a b w = jadd (jmul a (jsub (Fin 1) w)) (jmul b w)"

definition mix :: "color \<Rightarrow> color \<Rightarrow> jsnum option \<Rightarrow> jserror + color" where
  "mix this other w =
     (let w' = (if w = Some (Fin 0) then Fin 0 else or_else w (Fin (1 / 2)));
          r = Math_round (average (red this) (red other) w');
          g = Math_round (average (green this) (green other) w');
          b = Math_round (average (blue this) (blue other) w')
      in Color (Some r) (Some g) (Some b))"

definition equals :: "color \<Rightarrow> color \<Rightarrow> bool" where
  "equals this other \<longleftrightarrow>
     jseq (red this) (red other) \<and> jseq (green this) (green other)
     \<and> jseq (blue this) (blue other)"

definition isGrayscale :: "color \<Rightarrow> bool" where
  "isGrayscale this \<longleftrightarrow> jseq (hsvSat this) (Fin 0)"

text \<open>The branch \<open>space === 'hex'\<close> of \<open>toString\<close>.\<close>

definition hexdigits :: jsstring where
  "hexdigits = ascii ''0123456789abcdef''"

definition toHex :: "jsnum \<Rightarrow> jsstring" where
  "toHex n = charAt hexdigits (jdiv (jsub n (jmod n (Fin 16))) (Fin 16))
             @ charAt hexdigits (jmod n (Fin 16))"

definition toString_hex :: "color \<Rightarrow> jsstring" where
  "toString_hex this = ascii ''#'' @ toHex (red this) @ toHex (green this) @ toHex (blue this)"

subsection \<open>Static members\<close>

definition unary_plus :: "jsstring option \<Rightarrow> jsnum" where
  "unary_plus v = (case v of None \<Rightarrow> NaN | Some s \<Rightarrow> StringToNumber s)"

definition fromRGB :: "jsstring \<Rightarrow> jserror + color" where
  "fromRGB rgb_string =
     (let splitted = split (of_char CHR '','') (slice rgb_string 4 (- 1))
      in Color (Some (unary_plus (at_index splitted 0)))
               (Some (unary_plus (at_index splitted 1)))
               (Some (unary_plus (at_index splitted 2))))"

text \<open>The loop of \<open>toDec\<close>, from \<open>i\<close> on, with the current \<open>tens\<close> and \<open>ones\<close>.\<close>

function toDec_loop :: "jsstring \<Rightarrow> nat \<Rightarrow> nat \<Rightarrow> nat \<Rightarrow> nat" where
  "toDec_loop x i tens ones =
     (if i < 16 then
        toDec_loop x (i + 1)
          (if charAt hexdigits (Fin (of_nat i)) = slice x 0 1 then i * 16 else tens)
          (if charAt hexdigits (Fin (of_nat i)) = slice x 1 2 then i else ones)
      else tens + ones)"
  by pat_completeness auto
termination
  by (relation "measure (\<lambda>(x, i, tens, ones). 16 - i)") auto

definition toDec :: "jsstring \<Rightarrow> nat" where
  "toDec x = toDec_loop x 0 0 0"

definition fromHex :: "jsstring \<Rightarrow> jserror + color" where
  "fromHex hex_string =
     (let r_hex = slice hex_string 1 3;
          g_hex = slice hex_string 3 5;
          b_hex = slice hex_string 5 7
      in Color (Some (Fin (of_nat (toDec r_hex))))
               (Some (Fin (of_nat (toDec g_hex))))
               (Some (Fin (of_nat (toDec b_hex)))))"

text \<open>
  The argument of \<open>typeCheck\<close> is of any type: an instance of Color (or of a subclass),
  a string, a number, or something else (\<open>undefined\<close>, \<open>null\<close>, a boolean, another
  object). For a string that starts with \<open>hsv(\<close> or \<open>hsl(\<close> the method calls
  \<open>fromHSV(arg)\<close> or \<open>fromHSL(arg)\<close> with the string itself as the hue and no other
  argument: every use of the three parameters in these factories is an arithmetic
  operation or a comparison with a number, which converts the string by StringToNumber
  and \<open>undefined\<close> to NaN.
\<close>

datatype jsval = VColor color | VStr jsstring | VNum jsnum | VOther

definition typeCheck :: "jsval \<Rightarrow> jserror + color" where
  "typeCheck arg =
     (case arg of
        VColor c \<Rightarrow> Inr c
      | VStr s \<Rightarrow>
          (if slice s 0 1 = ascii ''#'' then fromHex s
           else if slice s 0 4 = ascii ''rgb('' then fromRGB s
           else if slice s 0 4 = ascii ''hsv('' then fromHSV (StringToNumber s) NaN NaN
           else if slice s 0 4 = ascii ''hsl('' then fromHSL (StringToNumber s) NaN NaN
           else Color None None None)
      | VNum n \<Rightarrow>
          (let graytone = Math_min [Math_max [Fin 0, n], Fin 255]
           in Color (Some graytone) (Some graytone) (Some graytone))
      | VOther \<Rightarrow> Color None None None)"

section \<open>The class ColorAlpha\<close>

text \<open>
  The class extends the class that the module \<open>./Color.class.js\<close> exports, and that
  module is not among the sources. What the body of ColorAlpha uses of its base class is
  taken as parameters: \<open>base\<close>, the constructor that \<open>super(red, green, blue)\<close> calls,
  a function of its three arguments that builds the instance or throws, and \<open>this_rgb\<close>
  and \<open>this_alpha\<close>, the values of the expressions \<open>this.rgb\<close> and \<open>this.alpha\<close> on an
  instance. The type of the instances is the type \<open>'obj\<close> of what \<open>base\<close> builds.

  The constructor has four parameters with defaults (a default applies to an omitted
  argument) and its body is the call of \<open>super\<close> alone: the fourth parameter is bound
  and never used.
\<close>

definition default_arg :: "jsnum option \<Rightarrow> jsnum \<Rightarrow> jsnum" where
  "default_arg a d = (case a of None \<Rightarrow> d | Some x \<Rightarrow> x)"

definition ColorAlpha ::
    "(jsnum option \<Rightarrow> jsnum option \<Rightarrow> jsnum option \<Rightarrow> jserror + 'obj)
     \<Rightarrow> jsnum option \<Rightarrow> jsnum option \<Rightarrow> jsnum option \<Rightarrow> jsnum option \<Rightarrow> jserror + 'obj" where
  "ColorAlpha base red_arg green_arg blue_arg alpha_arg =
     (let red' = default_arg red_arg (Fin 0);
          green' = default_arg green_arg (Fin 0);
          blue' = default_arg blue_arg (Fin 0);
          alpha' = default_arg alpha_arg (Fin 1)
      in base (Some red') (Some green') (Some blue'))"

text \<open>
  The value of a property of an instance: a number, a function, another object, an array
  of numbers, or \<open>undefined\<close>.
\<close>

datatype member = MNumber jsnum | MFunction | MObject | MArray "jsnum list" | MUndefined

text \<open>
  The spread \<open>...v\<close> in an argument list iterates \<open>v\<close>: an array gives its elements, and
  a number, a function, an object without an iterator or \<open>undefined\<close> a TypeError.
\<close>

definition spread :: "member \<Rightarrow> jserror + jsnum list" where
  "spread v = (case v of MArray xs \<Rightarrow> Inr xs | _ \<Rightarrow> Inl TypeError)"

text \<open>
  The conversion of a property to a number, for the operand of \<open>-\<close>: an array converts
  through its string, so the empty array is 0 and an array of one number is that number.
\<close>

definition member_to_number :: "member \<Rightarrow> jsnum" where
  "member_to_number v =
     (case v of
        MNumber x \<Rightarrow> x
      | MArray xs \<Rightarrow> (case xs of [] \<Rightarrow> Fin 0 | [x] \<Rightarrow> x | _ \<Rightarrow> NaN)
      | _ \<Rightarrow> NaN)"

text \<open>
  \<open>negative\<close>: the argument list of \<open>new ColorAlpha\<close> is the spread of \<open>this.rgb\<close>
  followed by \<open>1 - this.alpha\<close>, evaluated in this order; the parameters of the
  constructor take the arguments by position.
\<close>

definition negative_alpha ::
    "(jsnum option \<Rightarrow> jsnum option \<Rightarrow> jsnum option \<Rightarrow> jserror + 'obj)
     \<Rightarrow> ('obj \<Rightarrow> member) \<Rightarrow> ('obj \<Rightarrow> member) \<Rightarrow> 'obj \<Rightarrow> jserror + 'obj" where
  "negative_alpha base this_rgb this_alpha this =
     (case spread (this_rgb this) of
        Inl e \<Rightarrow> Inl e
      | Inr xs \<Rightarrow>
          (let alpha' = jsub (Fin 1) (member_to_number (this_alpha this));
               args = map Some xs @ [Some alpha'];
               arg = (\<lambda>i. case at_index args i of None \<Rightarrow> None | Some a \<Rightarrow> a)
           in ColorAlpha base (arg 0) (arg 1) (arg 2) (arg 3)))"

section \<open>Reading results\<close>

text \<open>
  A method call and a property read on the value of an expression that may have thrown:
  \<open>call r f\<close> is \<open>r.f()\<close> and \<open>get r f\<close> reads \<open>f\<close> off the result.
\<close>

definition call :: "jserror + 'a \<Rightarrow> ('a \<Rightarrow> jserror + 'b) \<Rightarrow> jserror + 'b" where
  "call r f = (case r of Inl e \<Rightarrow> Inl e | Inr v \<Rightarrow> f v)"

definition get :: "jserror + 'a \<Rightarrow> ('a \<Rightarrow> 'b) \<Rightarrow> jserror + 'b" where
  "get r f = (case r of Inl e \<Rightarrow> Inl e | Inr v \<Rightarrow> Inr (f v))"

text \<open>
  The value of a one-character string as a lowercase hexadecimal digit, as the
  documentation of \<open>fromHex\<close> words it: \<open>0\<close> to \<open>9\<close> and \<open>a\<close> to \<open>f\<close> count 0 to 15;
  \<open>spec_digit_value\<close> gives 0 to anything else, the empty string included.
\<close>

definition hex_index :: "jsstring \<Rightarrow> nat option" where
  "hex_index c =
     (case c of
        [] \<Rightarrow> None
      | u # rest \<Rightarrow>
          (if rest \<noteq> [] then None
           else if 48 \<le> u \<and> u \<le> 57 then Some (u - 48)
           else if 97 \<le> u \<and> u \<le> 102 then Some (u - 87)
           else None))"

definition spec_digit_value :: "jsstring \<Rightarrow> nat" where
  "spec_digit_value c = (case hex_index c of None \<Rightarrow> 0 | Some k \<Rightarrow> k)"

text \<open>
  The value of the channel whose two digits are at the positions \<open>i\<close> and \<open>i + 1\<close> of a
  string: 16 times the value of the first digit plus the value of the second.
\<close>

definition spec_channel :: "jsstring \<Rightarrow> int \<Rightarrow> nat" where
  "spec_channel s i =
     16 * spec_digit_value (slice s i (i + 1)) + spec_digit_value (slice s (i + 1) (i + 2))"

section \<open>Arithmetic facts\<close>

declare toDec_loop.simps [simp del]

lemma fl_0 [simp]: "fl 0 = Fin 0"
  by (simp add: fl_def)

lemma fl_not_NaN [simp]: "fl q \<noteq> NaN"
  by (simp add: fl_def Let_def)

lemma ilog2_neg: "ilog2 (- q) = ilog2 q"
  by (simp add: ilog2_def)

lemma fl_neg: "fl (- q) = jneg (fl q)"
  by (cases "q = 0"; cases "0 < q") (auto simp: fl_def ilog2_neg Let_def)

subsection \<open>The rounding\<close>

text \<open>
  \<open>ilog2\<close> is the binary exponent, a number with a 53-bit significand in the range of
  the format is its own rounding, and a rounding that stays finite is within half a unit
  in the last place of the exact value.
\<close>

lemma pow2_pos [simp]: "0 < pow2 k"
  by (simp add: pow2_def)

lemma pow2_nonneg [simp]: "0 \<le> pow2 k"
  by (simp add: pow2_def)

lemma pow2_nonzero [simp]: "pow2 k \<noteq> 0"
  by (simp add: pow2_def)

lemma pow2_abs [simp]: "\<bar>pow2 k\<bar> = pow2 k"
  by (simp add: pow2_def)

lemma pow2_add: "pow2 (a + b) = pow2 a * pow2 b"
proof -
  have "pow2 k = 2 powi k" for k
    by (simp add: pow2_def power_int_def field_simps)
  then show ?thesis
    by (simp add: power_int_add)
qed

lemma pow2_mono: "a \<le> b \<Longrightarrow> pow2 a \<le> pow2 b"
proof -
  have "pow2 k = 2 powi k" for k
    by (simp add: pow2_def power_int_def field_simps)
  then show "a \<le> b \<Longrightarrow> pow2 a \<le> pow2 b"
    by (simp add: power_int_increasing)
qed

lemma ilog2_bounds:
  assumes "q \<noteq> 0"
  shows "pow2 (ilog2 q) \<le> \<bar>q\<bar> \<and> \<bar>q\<bar> < pow2 (ilog2 q + 1)"
proof (cases "1 \<le> \<bar>q\<bar>")
  case True
  define n where "n = \<lfloor>\<bar>q\<bar>\<rfloor>"
  have n1: "1 \<le> n"
    using True by (simp add: n_def le_floor_iff)
  then have b: "2 ^ nat (bitlen n - 1) \<le> n" "n < 2 ^ nat (bitlen n)"
    using bitlen_bounds [of n] by simp_all
  have bl: "1 \<le> bitlen n"
    using n1 by (simp add: bitlen_alt_def)
  have e: "ilog2 q = bitlen n - 1"
    using True by (simp add: ilog2_def n_def)
  have "of_int n \<le> \<bar>q\<bar>" "\<bar>q\<bar> < of_int n + 1"
    unfolding n_def by linarith+
  moreover have "pow2 (bitlen n - 1) = of_int (2 ^ nat (bitlen n - 1))"
    using bl by (simp add: pow2_def)
  moreover have "pow2 (bitlen n - 1 + 1) = of_int (2 ^ nat (bitlen n))"
    using bl by (simp add: pow2_def)
  moreover have "(of_int (2 ^ nat (bitlen n - 1)) :: rat) \<le> of_int n"
    using b(1) by (simp only: of_int_le_iff)
  moreover have "(of_int n + 1 :: rat) \<le> of_int (2 ^ nat (bitlen n))"
    using b(2) by (metis add.commute of_int_1 of_int_add of_int_le_iff zless_imp_add1_zle)
  ultimately show ?thesis
    unfolding e by linarith
next
  case False
  define c where "c = \<lceil>1 / \<bar>q\<bar>\<rceil>"
  define k where "k = bitlen (c - 1)"
  have q: "0 < \<bar>q\<bar>" "\<bar>q\<bar> < 1"
    using assms False by simp_all
  then have inv: "1 < 1 / \<bar>q\<bar>"
    by simp
  then have c2: "2 \<le> c"
    unfolding c_def by linarith
  then have b: "2 ^ nat (k - 1) \<le> c - 1" "c - 1 < 2 ^ nat k"
    using bitlen_bounds [of "c - 1"] by (simp_all add: k_def)
  have k1: "1 \<le> k"
    using c2 by (simp add: k_def bitlen_alt_def)
  have e: "ilog2 q = - k"
    using False by (simp add: ilog2_def c_def k_def)
  have cb: "of_int (c - 1) < 1 / \<bar>q\<bar>" "1 / \<bar>q\<bar> \<le> of_int c"
    unfolding c_def by linarith+
  have "(of_int (2 ^ nat (k - 1)) :: rat) \<le> of_int (c - 1)"
    using b(1) by (simp only: of_int_le_iff)
  with cb(1) have lo: "(2 ^ nat (k - 1) :: rat) < 1 / \<bar>q\<bar>"
    by simp
  from b(2) have "c \<le> 2 ^ nat k"
    by simp
  then have "(of_int c :: rat) \<le> of_int (2 ^ nat k)"
    by (simp only: of_int_le_iff)
  then have "(of_int c :: rat) \<le> 2 ^ nat k"
    by simp
  with cb(2) have hi: "1 / \<bar>q\<bar> \<le> (2 ^ nat k :: rat)"
    by linarith
  have p1: "pow2 (- k) = 1 / 2 ^ nat k"
    using k1 by (simp add: pow2_def)
  have p2: "pow2 (- k + 1) = 1 / 2 ^ nat (k - 1)"
    using k1 by (cases "k = 1") (simp_all add: pow2_def nat_diff_distrib)
  from hi q(1) have "1 / 2 ^ nat k \<le> \<bar>q\<bar>"
    by (simp add: field_simps)
  moreover from lo q(1) have "\<bar>q\<bar> < 1 / 2 ^ nat (k - 1)"
    by (simp add: field_simps)
  ultimately show ?thesis
    unfolding e p1 p2 by simp
qed


lemma pow2_less_imp: "pow2 a < pow2 b \<Longrightarrow> a < b"
  using pow2_mono [of b a] by (cases "a < b") simp_all

lemma ilog2_unique:
  assumes "q \<noteq> 0" "pow2 e \<le> \<bar>q\<bar>" "\<bar>q\<bar> < pow2 (e + 1)"
  shows "ilog2 q = e"
proof -
  from ilog2_bounds [OF assms(1)] assms(2,3)
  have "pow2 (ilog2 q) < pow2 (e + 1)" "pow2 e < pow2 (ilog2 q + 1)"
    by linarith+
  then have "ilog2 q < e + 1" "e < ilog2 q + 1"
    by (auto dest: pow2_less_imp)
  then show ?thesis
    by simp
qed

lemma ilog2_abs: "ilog2 \<bar>q\<bar> = ilog2 q"
  by (simp add: ilog2_def)

lemma round_even_of_int: "round_even (of_int n) = n"
  by (simp add: round_even_def)

text \<open>A number with a 53-bit significand, in the range of the format, is its own rounding.\<close>

lemma fl_exact:
  assumes q: "q = of_int m * pow2 p" and m: "m \<noteq> 0" "\<bar>m\<bar> < 2 ^ 53"
    and p: "- 1074 \<le> p" and e: "ilog2 q < 1024"
  shows "fl q = Fin q"
proof -
  have q0: "q \<noteq> 0"
    using q m(1) pow2_pos [of p] by simp
  define t where "t = max (ilog2 q - 52) (- 1074)"
  have aq: "\<bar>q\<bar> = of_int \<bar>m\<bar> * pow2 p"
    using pow2_pos [of p] by (simp add: q abs_mult)
  have "(of_int \<bar>m\<bar> :: rat) < of_int (2 ^ 53)"
    using m(2) by (simp only: of_int_less_iff)
  then have "\<bar>q\<bar> < pow2 53 * pow2 p"
    using pow2_pos [of p] by (simp add: aq pow2_def)
  then have "\<bar>q\<bar> < pow2 (53 + p)"
    by (simp add: pow2_add)
  with ilog2_bounds [OF q0] have "pow2 (ilog2 q) < pow2 (53 + p)"
    by linarith
  then have "ilog2 q < 53 + p"
    by (rule pow2_less_imp)
  with p have tp: "t \<le> p"
    by (simp add: t_def)
  have factor: "pow2 p = pow2 (p - t) * pow2 t"
    using pow2_add [of "p - t" t] by simp
  have int_pow: "pow2 (p - t) = of_int (2 ^ nat (p - t))"
    using tp by (simp add: pow2_def)
  have quot: "\<bar>q\<bar> / pow2 t = of_int (\<bar>m\<bar> * 2 ^ nat (p - t))"
    using pow2_pos [of t] by (simp add: aq factor int_pow)
  have restore: "of_int (round_even (\<bar>q\<bar> / pow2 t)) * pow2 t = \<bar>q\<bar>"
    unfolding quot round_even_of_int using pow2_pos [of t]
    by (simp add: aq factor int_pow)
  show ?thesis
    using q0 e unfolding fl_def Let_def t_def [symmetric] restore ilog2_abs
    by (cases "0 < q") simp_all
qed

lemma fl_of_int:
  assumes "\<bar>n\<bar> < 2 ^ 53"
  shows "fl (of_int n) = Fin (of_int n)"
proof (cases "n = 0")
  case True
  then show ?thesis by simp
next
  case False
  let ?q = "of_int n :: rat"
  have q0: "?q \<noteq> 0"
    using False by simp
  have "(of_int \<bar>n\<bar> :: rat) < of_int (2 ^ 53)"
    using assms by (simp only: of_int_less_iff)
  then have "\<bar>?q\<bar> < pow2 53"
    by (simp add: pow2_def)
  with ilog2_bounds [OF q0] have "pow2 (ilog2 ?q) < pow2 53"
    by linarith
  then have "ilog2 ?q < 53"
    by (rule pow2_less_imp)
  then have "ilog2 ?q < 1024"
    by simp
  moreover have "?q = of_int n * pow2 0"
    by (simp add: pow2_def)
  ultimately show ?thesis
    using False assms by (intro fl_exact [where m = n and p = 0]) simp_all
qed

lemma fl_numeral: "numeral k < (2::int) ^ 53 \<Longrightarrow> fl (numeral k) = Fin (numeral k)"
  using fl_of_int [of "numeral k"] by simp

lemma fl_1: "fl 1 = Fin 1"
  using fl_of_int [of 1] by simp

lemma round_even_close: "\<bar>of_int (round_even x) - x\<bar> \<le> 1 / 2"
proof -
  define d where "d = x - of_int \<lfloor>x\<rfloor>"
  have d: "0 \<le> d" "d < 1"
    unfolding d_def by linarith+
  have r: "round_even x =
      (if d < 1 / 2 then \<lfloor>x\<rfloor> else if 1 / 2 < d then \<lfloor>x\<rfloor> + 1
       else if even \<lfloor>x\<rfloor> then \<lfloor>x\<rfloor> else \<lfloor>x\<rfloor> + 1)"
    by (simp add: round_even_def Let_def d_def)
  have lo: "\<bar>of_int \<lfloor>x\<rfloor> - x\<bar> = d"
    using d by (simp add: d_def)
  have hi: "\<bar>of_int \<lfloor>x\<rfloor> + 1 - x\<bar> = 1 - d"
    using d by (simp add: d_def)
  consider "d < 1 / 2" | "1 / 2 < d" | "d = 1 / 2"
    by linarith
  then show ?thesis
  proof cases
    case 1
    then show ?thesis
      by (simp add: r lo)
  next
    case 2
    then show ?thesis
      by (simp add: r hi)
  next
    case 3
    then show ?thesis
      by (cases "even \<lfloor>x\<rfloor>") (simp_all add: r lo hi)
  qed
qed

lemma fl_nearest:
  assumes "fl q = Fin r"
  shows "\<bar>r - q\<bar> \<le> pow2 (max (ilog2 q - 52) (- 1074)) / 2"
proof (cases "q = 0")
  case True
  with assms show ?thesis
    by simp
next
  case False
  define u where "u = pow2 (max (ilog2 q - 52) (- 1074))"
  have u: "0 < u"
    by (simp add: u_def)
  define n where "n = round_even (\<bar>q\<bar> / u)"
  have "\<bar>of_int n - \<bar>q\<bar> / u\<bar> \<le> 1 / 2"
    unfolding n_def by (rule round_even_close)
  then have "\<bar>of_int n - \<bar>q\<bar> / u\<bar> * u \<le> 1 / 2 * u"
    using u by (intro mult_right_mono) simp_all
  moreover have "of_int n * u - \<bar>q\<bar> = (of_int n - \<bar>q\<bar> / u) * u"
    using u by (simp add: field_simps)
  then have "\<bar>of_int n * u - \<bar>q\<bar>\<bar> = \<bar>of_int n - \<bar>q\<bar> / u\<bar> * u"
    using u by (simp only: abs_mult)
  ultimately have close: "\<bar>of_int n * u - \<bar>q\<bar>\<bar> \<le> u / 2"
    by simp
  have "fl q =
      (if 1024 \<le> ilog2 (of_int n * u) then (if 0 < q then PInf else NInf)
       else Fin (if 0 < q then of_int n * u else - (of_int n * u)))"
    using False by (simp add: fl_def Let_def u_def n_def)
  with assms have "r = (if 0 < q then of_int n * u else - (of_int n * u))"
    by (simp split: if_splits)
  with close False show ?thesis
    unfolding u_def [symmetric] by (cases "0 < q") (simp_all add: abs_if split: if_splits)
qed

subsection \<open>Floors and roundings of literals\<close>

text \<open>Floors and ceilings of literal fractions, for \<open>%\<close> and \<open>Math.round\<close>.\<close>

lemma floor_rat_numeral [simp]:
  "\<lfloor>numeral a / numeral b :: rat\<rfloor> = numeral a div numeral b"
  using floor_divide_of_int_eq [of "numeral a" "numeral b", where ?'a = rat] by simp

lemma floor_rat_one_numeral [simp]:
  "\<lfloor>1 / numeral b :: rat\<rfloor> = 1 div numeral b"
  using floor_divide_of_int_eq [of 1 "numeral b", where ?'a = rat] by simp

lemma ceiling_rat_neg_numeral [simp]:
  "\<lceil>- (numeral a / numeral b) :: rat\<rceil> = - (numeral a div numeral b)"
  by (simp add: ceiling_minus)

lemma ceiling_rat_neg_one_numeral [simp]:
  "\<lceil>- (1 / numeral b) :: rat\<rceil> = - (1 div numeral b)"
  by (simp add: ceiling_minus)

text \<open>
  The roundings of fractions that the examples below go through: the binary64 values
  next to 1/255, 5/255 and 1/10 and the results of the operations on them.
\<close>

lemma fl_fracs:
  "fl (1 / 2) = Fin (1 / 2)"
  "fl (1 / 255) = Fin (282578800148737 / 72057594037927936)"
  "fl (71775015237779199 / 72057594037927936) = Fin (280371153272575 / 281474976710656)"
  "fl (280371153272575 / 281474976710656) = Fin (280371153272575 / 281474976710656)"
  "fl (72340172838076673 / 72057594037927936) = Fin (282578800148737 / 281474976710656)"
  "fl (282578800148737 / 562949953421312) = Fin (282578800148737 / 562949953421312)"
  "fl (282578800148737 / 281474976710656) = Fin (282578800148737 / 281474976710656)"
  "fl (1 / 51) = Fin (1412894000743685 / 72057594037927936)"
  "fl (1412894000743685 / 36028797018963968) = Fin (1412894000743685 / 36028797018963968)"
  "fl (1412894000743685 / 72057594037927936) = Fin (1412894000743685 / 72057594037927936)"
  "fl (1 / 10) = Fin (3602879701896397 / 36028797018963968)"
  "fl (32425917317067571 / 36028797018963968) = Fin (8106479329266893 / 9007199254740992)"
  "fl (18014398509481985 / 36028797018963968) = Fin (1 / 2)"
  "fl (900719925474099 / 9007199254740992) = Fin (900719925474099 / 9007199254740992)"
  "fl (4503599627370495 / 9007199254740992) = Fin (4503599627370495 / 9007199254740992)"
  by code_simp+

lemmas num_defs =
  Let_def fl_neg fl_1 fl_numeral fl_fracs jsub_def jseq_def jle_def trunc_def jmax_def jmin_def
  Math_max_def Math_min_def truthy_def or_else_def at_index_def jsign_def

lemmas accessors =
  red_def green_def blue_def hsvHue_def hsvSat_def hsvVal_def
  hslHue_def hslSat_def hslLum_def rgb_def hsv_def hsl_def

lemmas color_defs = Color_def hsv_hue_def hue_formulas_def hsl_sat_def

lemmas string_defs = charAt_def hexdigits_def ascii_def slice_def

section \<open>The constructor never throws\<close>

lemma jmax_NInf: "x \<noteq> NaN \<Longrightarrow> jmax NInf x = x"
  by (cases x) (simp_all add: jmax_def)

lemma jmax_in: "x \<noteq> NaN \<Longrightarrow> y \<noteq> NaN \<Longrightarrow> jmax x y = x \<or> jmax x y = y"
  by (simp add: jmax_def)

lemma Math_max3:
  "R \<noteq> NaN \<Longrightarrow> G \<noteq> NaN \<Longrightarrow> B \<noteq> NaN \<Longrightarrow> Math_max [R, G, B] \<in> {R, G, B}"
  unfolding Math_max_def using jmax_in [of R G] jmax_in [of "jmax R G" B]
  by (auto simp: jmax_NInf)

lemma jdiv_255_NaN: "x \<noteq> NaN \<Longrightarrow> jdiv x (Fin 255) \<noteq> NaN"
  by (cases x) (simp_all add: jsign_def)

lemma indexOf_found:
  "x \<noteq> NaN \<Longrightarrow> x \<in> set xs \<Longrightarrow> 0 \<le> indexOf xs x \<and> indexOf xs x < int (length xs)"
  by (induction xs) (auto simp: jseq_def Let_def)

lemma or_else_not_NaN: "d \<noteq> NaN \<Longrightarrow> or_else a d \<noteq> NaN"
  by (cases a) (auto simp: or_else_def truthy_def)

text \<open>
  The fields are never NaN, so \<open>_max\<close> is one of the three quotients and \<open>indexOf\<close>
  finds it: the array of formulas is never read out of range.
\<close>

lemma hsv_hue_total:
  assumes "R \<noteq> NaN" "G \<noteq> NaN" "B \<noteq> NaN"
  shows "\<exists>h. hsv_hue R G B (jdiv (Math_max [R, G, B]) (Fin 255)) chroma = Inr h"
proof -
  let ?mx = "jdiv (Math_max [R, G, B]) (Fin 255)"
  let ?rgb = "[jdiv R (Fin 255), jdiv G (Fin 255), jdiv B (Fin 255)]"
  have m: "Math_max [R, G, B] \<in> {R, G, B}"
    using assms by (rule Math_max3)
  then have "Math_max [R, G, B] \<noteq> NaN"
    using assms by auto
  then have n: "?mx \<noteq> NaN"
    by (rule jdiv_255_NaN)
  have "?mx \<in> set ?rgb"
    using m by auto
  with n have "0 \<le> indexOf ?rgb ?mx \<and> indexOf ?rgb ?mx < int (length ?rgb)"
    by (rule indexOf_found)
  then have "at_index (hue_formulas chroma) (indexOf ?rgb ?mx) \<noteq> None"
    by (simp add: at_index_def hue_formulas_def)
  then show ?thesis
    by (auto simp: hsv_hue_def Let_def)
qed

lemma Color_fields:
  "\<exists>c. Color r g b = Inr c \<and> RED c = or_else r (Fin 0)
       \<and> GREEN c = or_else g (or_else r (Fin 0)) \<and> BLUE c = or_else b (or_else r (Fin 0))"
proof -
  let ?R = "or_else r (Fin 0)"
  let ?G = "or_else g ?R"
  let ?B = "or_else b ?R"
  let ?mx = "jdiv (Math_max [?R, ?G, ?B]) (Fin 255)"
  let ?mn = "jdiv (Math_min [?R, ?G, ?B]) (Fin 255)"
  have "?R \<noteq> NaN" "?G \<noteq> NaN" "?B \<noteq> NaN"
    by (simp_all add: or_else_not_NaN)
  then obtain h where "hsv_hue ?R ?G ?B ?mx (jsub ?mx ?mn) = Inr h"
    using hsv_hue_total by blast
  then show ?thesis
    by (simp add: Color_def Let_def)
qed

lemma get_Color_rgb:
  "get (Color r g b) rgb =
     Inr [or_else r (Fin 0), or_else g (or_else r (Fin 0)), or_else b (or_else r (Fin 0))]"
  using Color_fields [of r g b] by (auto simp: get_def accessors)

lemma Color_zero_args:
  "Color (Some (Fin 0)) (Some (Fin 0)) (Some (Fin 0)) = Color None None None"
  by (simp add: Color_def or_else_def truthy_def)

section \<open>The colors of the examples\<close>

lemma Color_no_args:
  "Color None None None =
     Inr \<lparr>RED = Fin 0, GREEN = Fin 0, BLUE = Fin 0,
          HSV_HUE = Fin 0, HSV_VAL = Fin 0, HSV_SAT = NaN,
          HSL_HUE = Fin 0, HSL_LUM = Fin 0, HSL_SAT = Fin 0\<rparr>"
  by (simp add: color_defs num_defs)

lemma Color_255_0_0:
  "Color (Some (Fin 255)) (Some (Fin 0)) (Some (Fin 0)) =
     Inr \<lparr>RED = Fin 255, GREEN = Fin 255, BLUE = Fin 255,
          HSV_HUE = Fin 0, HSV_VAL = Fin 1, HSV_SAT = Fin 0,
          HSL_HUE = Fin 0, HSL_LUM = Fin 1, HSL_SAT = Fin 0\<rparr>"
  by (simp add: color_defs num_defs)

lemma Color_255_255_255:
  "Color (Some (Fin 255)) (Some (Fin 255)) (Some (Fin 255)) =
     Inr \<lparr>RED = Fin 255, GREEN = Fin 255, BLUE = Fin 255,
          HSV_HUE = Fin 0, HSV_VAL = Fin 1, HSV_SAT = Fin 0,
          HSL_HUE = Fin 0, HSL_LUM = Fin 1, HSL_SAT = Fin 0\<rparr>"
  by (simp add: color_defs num_defs)

lemma Color_0_255_255:
  "Color (Some (Fin 0)) (Some (Fin 255)) (Some (Fin 255)) =
     Inr \<lparr>RED = Fin 0, GREEN = Fin 255, BLUE = Fin 255,
          HSV_HUE = Fin 180, HSV_VAL = Fin 1, HSV_SAT = Fin 1,
          HSL_HUE = Fin 180, HSL_LUM = Fin (1 / 2), HSL_SAT = Fin 1\<rparr>"
  by (simp add: color_defs num_defs)

lemma Color_255_1_255:
  "Color (Some (Fin 255)) (Some (Fin 1)) (Some (Fin 255)) =
     Inr \<lparr>RED = Fin 255, GREEN = Fin 1, BLUE = Fin 255,
          HSV_HUE = Fin (- 60), HSV_VAL = Fin 1,
          HSV_SAT = Fin (280371153272575 / 281474976710656),
          HSL_HUE = Fin (- 60), HSL_LUM = Fin (282578800148737 / 562949953421312),
          HSL_SAT = Fin 1\<rparr>"
  by (simp add: color_defs num_defs)

lemma Color_5_5_5:
  "Color (Some (Fin 5)) (Some (Fin 5)) (Some (Fin 5)) =
     Inr \<lparr>RED = Fin 5, GREEN = Fin 5, BLUE = Fin 5,
          HSV_HUE = Fin 0, HSV_VAL = Fin (1412894000743685 / 72057594037927936),
          HSV_SAT = Fin 0,
          HSL_HUE = Fin 0, HSL_LUM = Fin (1412894000743685 / 72057594037927936),
          HSL_SAT = Fin 0\<rparr>"
  by (simp add: color_defs num_defs)

section \<open>The loop of \<open>toDec\<close>\<close>

lemma less_16_cases:
  "i < 16 \<Longrightarrow> i \<in> {0, 1, 2, 3, 4, 5, 6, 7, 8, 9, 10, 11, 12, 13, 14, 15::nat}"
  by simp arith

lemma hexdigits_nth:
  "i < 16 \<Longrightarrow> hexdigits ! i = (if i < 10 then 48 + i else 87 + i)"
  by (drule less_16_cases) (auto simp: hexdigits_def ascii_def)

lemma charAt_hexdigits:
  "i < 16 \<Longrightarrow> charAt hexdigits (Fin (of_nat i)) = [if i < 10 then 48 + i else 87 + i]"
  by (simp add: charAt_def trunc_def hexdigits_nth) (simp add: hexdigits_def ascii_def)

lemma charAt_hexdigits_eq:
  "i < 16 \<Longrightarrow> charAt hexdigits (Fin (of_nat i)) = c \<longleftrightarrow> hex_index c = Some i"
  by (auto simp: charAt_hexdigits hex_index_def split: list.splits if_splits)

lemma hex_index_less: "hex_index c = Some k \<Longrightarrow> k < 16"
  by (auto simp: hex_index_def split: list.splits if_splits)

text \<open>
  The invariant of the loop: from \<open>i\<close> on, a digit whose index is still to come
  overwrites \<open>tens\<close> or \<open>ones\<close>, and nothing else does.
\<close>

lemma toDec_loop_inv:
  "i \<le> 16 \<Longrightarrow>
   toDec_loop x i tens ones =
     (case hex_index (slice x 0 1) of
        None \<Rightarrow> tens | Some k \<Rightarrow> if i \<le> k then k * 16 else tens)
     + (case hex_index (slice x 1 2) of
          None \<Rightarrow> ones | Some k \<Rightarrow> if i \<le> k then k else ones)"
proof (induction x i tens ones rule: toDec_loop.induct)
  case (1 x i tens ones)
  show ?case
  proof (cases "i < 16")
    case True
    then have "Suc i \<le> 16"
      by simp
    with True "1.IH" show ?thesis
      by (subst toDec_loop.simps)
         (auto simp: charAt_hexdigits_eq split: option.splits dest: hex_index_less)
  next
    case False
    with "1.prems" have "i = 16"
      by simp
    then show ?thesis
      by (subst toDec_loop.simps) (auto split: option.splits dest: hex_index_less)
  qed
qed

lemma toDec_closed:
  "toDec x = 16 * spec_digit_value (slice x 0 1) + spec_digit_value (slice x 1 2)"
  by (simp add: toDec_def toDec_loop_inv spec_digit_value_def split: option.splits)

lemma slice_nonneg:
  "0 \<le> a \<Longrightarrow> a \<le> b \<Longrightarrow> slice s a b = take (nat (b - a)) (drop (nat a) s)"
  by (auto simp: slice_def Let_def min_def)

lemma slice_of_slice:
  "slice (slice s 1 3) 0 1 = slice s 1 2" "slice (slice s 1 3) 1 2 = slice s 2 3"
  "slice (slice s 3 5) 0 1 = slice s 3 4" "slice (slice s 3 5) 1 2 = slice s 4 5"
  "slice (slice s 5 7) 0 1 = slice s 5 6" "slice (slice s 5 7) 1 2 = slice s 6 7"
  by (simp_all add: slice_nonneg drop_take min_def eval_nat_numeral)

lemma fromHex_channels:
  "fromHex s =
     Color (Some (Fin (of_nat (16 * spec_digit_value (slice s 1 2) + spec_digit_value (slice s 2 3)))))
           (Some (Fin (of_nat (16 * spec_digit_value (slice s 3 4) + spec_digit_value (slice s 4 5)))))
           (Some (Fin (of_nat (16 * spec_digit_value (slice s 5 6) + spec_digit_value (slice s 6 7)))))"
  by (simp add: fromHex_def Let_def toDec_closed slice_of_slice)

section \<open>The class ColorAlpha keeps no alpha\<close>

text \<open>Whatever the base class, the instance does not depend on the fourth argument.\<close>

lemma ColorAlpha_drops_alpha: "ColorAlpha base r g b a = ColorAlpha base r g b a'"
  by (simp add: ColorAlpha_def)

lemma negative_of_three:
  "this_rgb this = MArray [x, y, z] \<Longrightarrow>
   negative_alpha base this_rgb this_alpha this = base (Some x) (Some y) (Some z)"
  by (simp add: negative_alpha_def spread_def at_index_def ColorAlpha_def default_arg_def)

lemmas parse_defs =
  StringToNumber_def trimString_def isStrWhiteSpaceChar_def NonDecimalIntegerLiteral_def
  StrDecimalLiteral_def StrUnsignedDecimalLiteral_def isDecimalDigit_def digitValue_def

section \<open>Hue rotation and the sextants\<close>

lemma sextant_NaN: "sextant NaN c x = None"
  by (simp add: sextant_def jle_def jseq_def)

lemma sextant_negative: "q < 0 \<Longrightarrow> sextant (Fin q) c x = None"
  by (simp add: sextant_def jle_def jseq_def)

lemma sextant_in_range:
  "0 \<le> q \<Longrightarrow> q < 360 \<Longrightarrow> \<exists>u v w. sextant (Fin q) c x = Some [u, v, w]"
  by (auto simp: sextant_def jle_def jseq_def)

text \<open>The sign of \<open>q % 360\<close> is the sign of \<open>q\<close>.\<close>

lemma jmod_360_negative:
  assumes "q < 0"
  shows "\<exists>r. jmod (Fin q) (Fin 360) = Fin r \<and> - 360 < r \<and> r \<le> 0"
proof -
  define y where "y = q / 360"
  have q: "q = 360 * y"
    by (simp add: y_def)
  have "y \<le> of_int \<lceil>y\<rceil>" "of_int \<lceil>y\<rceil> < y + 1"
    by linarith+
  with q have "- 360 < q - 360 * of_int \<lceil>y\<rceil> \<and> q - 360 * of_int \<lceil>y\<rceil> \<le> 0"
    by linarith
  moreover have "jmod (Fin q) (Fin 360) = Fin (q - 360 * of_int \<lceil>y\<rceil>)"
    using assms by (simp add: trunc_def y_def divide_less_0_iff)
  ultimately show ?thesis
    by blast
qed

lemma jmod_360_nonneg:
  assumes "0 \<le> q"
  shows "\<exists>r. jmod (Fin q) (Fin 360) = Fin r \<and> 0 \<le> r \<and> r < 360"
proof -
  define y where "y = q / 360"
  have q: "q = 360 * y"
    by (simp add: y_def)
  have "of_int \<lfloor>y\<rfloor> \<le> y" "y < of_int \<lfloor>y\<rfloor> + 1"
    by linarith+
  with q have "0 \<le> q - 360 * of_int \<lfloor>y\<rfloor> \<and> q - 360 * of_int \<lfloor>y\<rfloor> < 360"
    by linarith
  moreover have "jmod (Fin q) (Fin 360) = Fin (q - 360 * of_int \<lfloor>y\<rfloor>)"
    using assms by (simp add: trunc_def y_def)
  ultimately show ?thesis
    by blast
qed

lemma fromHSV_negative: "q < 0 \<Longrightarrow> fromHSV (Fin q) s v = Inl TypeError"
  by (simp add: fromHSV_def sextant_negative from_sextant_def Let_def)

lemma fromHSV_in_range:
  assumes "0 \<le> q" "q < 360"
  shows "\<exists>c. fromHSV (Fin q) s v = Inr c"
proof -
  let ?c = "jmul s v"
  let ?x = "jmul ?c (jsub (Fin 1)
              (Math_abs (jsub (jmod (jdiv (Fin q) (Fin 60)) (Fin 2)) (Fin 1))))"
  obtain u1 u2 u3 where "sextant (Fin q) ?c ?x = Some [u1, u2, u3]"
    using sextant_in_range [OF assms] by blast
  moreover have "\<exists>c. Color r g b = Inr c" for r g b
    using Color_fields by blast
  ultimately show ?thesis
    by (simp add: fromHSV_def Let_def from_sextant_def)
qed

text \<open>
  \<open>rotate\<close> throws when the sum of the hue and the angle is negative and not a multiple
  of 360, and returns a color when the sum is a finite number from 0 on.
\<close>

lemma rotate_below_zero_throws:
  assumes "jadd (hsvHue this) a = Fin q" "q < 0" "jmod (Fin q) (Fin 360) \<noteq> Fin 0"
  shows "rotate_color this a = Inl TypeError"
proof -
  obtain r where r: "jmod (Fin q) (Fin 360) = Fin r" "r \<le> 0"
    using jmod_360_negative [OF assms(2)] by blast
  with assms(3) have "r < 0"
    by simp
  then have "fromHSV (Fin r) (hsvSat this) (hsvVal this) = Inl TypeError"
    by (rule fromHSV_negative)
  then show ?thesis
    by (simp only: rotate_color_def Let_def assms(1) r(1))
qed

lemma rotate_from_zero_returns:
  assumes "jadd (hsvHue this) a = Fin q" "0 \<le> q"
  shows "\<exists>c. rotate_color this a = Inr c"
proof -
  obtain r where r: "jmod (Fin q) (Fin 360) = Fin r" "0 \<le> r" "r < 360"
    using jmod_360_nonneg [OF assms(2)] by blast
  from r(2,3) have "\<exists>c. fromHSV (Fin r) (hsvSat this) (hsvVal this) = Inr c"
    by (rule fromHSV_in_range)
  then show ?thesis
    by (simp only: rotate_color_def Let_def assms(1) r(1))
qed

section \<open>Strings that start with \<open>hsv(\<close> or \<open>hsl(\<close>\<close>

lemma trimString_Cons:
  "\<not> isStrWhiteSpaceChar u \<Longrightarrow>
   trimString (u # t) = u # rev (dropWhile isStrWhiteSpaceChar (rev t))"
  by (simp add: trimString_def dropWhile_append3)

text \<open>A string that starts with the letter \<open>h\<close> is no numeric literal.\<close>

lemma StringToNumber_h: "StringToNumber (104 # t) = NaN"
proof -
  have ws: "\<not> isStrWhiteSpaceChar 104"
    by (simp add: isStrWhiteSpaceChar_def)
  show ?thesis
    by (simp add: StringToNumber_def trimString_Cons [OF ws] NonDecimalIntegerLiteral_def
          StrDecimalLiteral_def StrUnsignedDecimalLiteral_def isDecimalDigit_def digitValue_def
          ascii_def Let_def)
qed

lemma hsv_prefix_is_h:
  assumes "slice s 0 4 = ascii ''hsv('' \<or> slice s 0 4 = ascii ''hsl(''"
  shows "\<exists>t. s = 104 # t"
  using assms by (cases s) (auto simp: slice_nonneg ascii_def)

lemma typeCheck_hsv_prefix_throws:
  assumes "slice s 0 4 = ascii ''hsv('' \<or> slice s 0 4 = ascii ''hsl(''"
  shows "typeCheck (VStr s) = Inl TypeError"
proof -
  obtain t where s: "s = 104 # t"
    using hsv_prefix_is_h [OF assms] by blast
  have a: "slice s 0 1 \<noteq> ascii ''#''"
    by (simp add: s slice_def ascii_def)
  have b: "slice s 0 4 \<noteq> ascii ''rgb(''"
    using assms by (auto simp: ascii_def)
  have n: "StringToNumber s = NaN"
    by (simp add: s StringToNumber_h)
  from assms a b show ?thesis
    by (auto simp: typeCheck_def n fromHSV_def fromHSL_def sextant_NaN from_sextant_def Let_def)
qed

section \<open>The claims\<close>

text \<open>
  C1. The claim: \<open>Color(r, g, b)\<close> has the components r, g and b, and \<open>Color(255, 0, 0)\<close>
  has hsv (0, 1, 1), hsl (0, 1, 0.5) and the hex string \<open>#ff0000\<close>. The constructor reads
  its second and third argument as \<open>grn || self._RED\<close> and \<open>blu || self._RED\<close>, and 0
  is falsy: \<open>Color(255, 0, 0)\<close> is white, with the components (255, 255, 255), hsv
  (0, 0, 1), hsl (0, 0, 1) and the hex string \<open>#ffffff\<close>.
\<close>

theorem C1_Color_255_0_0_is_white:
  "get (Color (Some (Fin 255)) (Some (Fin 0)) (Some (Fin 0))) rgb
     = Inr [Fin 255, Fin 255, Fin 255]
   \<and> get (Color (Some (Fin 255)) (Some (Fin 0)) (Some (Fin 0))) hsv
     = Inr [Fin 0, Fin 0, Fin 1]
   \<and> get (Color (Some (Fin 255)) (Some (Fin 0)) (Some (Fin 0))) hsl
     = Inr [Fin 0, Fin 0, Fin 1]
   \<and> get (Color (Some (Fin 255)) (Some (Fin 0)) (Some (Fin 0))) toString_hex
     = Inr (ascii ''#ffffff'')"
  by (simp add: get_def Color_255_0_0 accessors toString_hex_def toHex_def string_defs num_defs)

text \<open>
  C2. The claim: \<open>isGrayscale()\<close> is true exactly when red, green and blue are equal,
  black included, whose saturation is 0 by a guard on the division. There is no guard:
  for black the HSV saturation is \<open>0 / 0\<close>, which is NaN, and \<open>NaN === 0\<close> is false, so
  \<open>isGrayscale()\<close> answers false for the color (0, 0, 0).
\<close>

theorem C2_black_is_not_grayscale:
  "get (Color None None None) rgb = Inr [Fin 0, Fin 0, Fin 0]
   \<and> get (Color None None None) hsvSat = Inr NaN
   \<and> get (Color None None None) isGrayscale = Inr False
   \<and> Color (Some (Fin 0)) (Some (Fin 0)) (Some (Fin 0)) = Color None None None"
  by (simp add: get_def Color_no_args Color_zero_args accessors isGrayscale_def jseq_def)

text \<open>
  C3. The claim: the hue is in [0, 360), never negative when red is the maximum, and the
  saturation and the value are in [0, 1]. The operator \<open>%\<close> keeps the sign of its left
  operand: for \<open>Color(255, 1, 255)\<close>, where red is the first maximum and green is below
  blue, the hue is \<open>- 60\<close>. For black the saturation is NaN.
\<close>

theorem C3_hue_minus_60:
  "get (Color (Some (Fin 255)) (Some (Fin 1)) (Some (Fin 255))) rgb
     = Inr [Fin 255, Fin 1, Fin 255]
   \<and> get (Color (Some (Fin 255)) (Some (Fin 1)) (Some (Fin 255))) hsvHue = Inr (Fin (- 60))
   \<and> get (Color None None None) hsv = Inr [Fin 0, NaN, Fin 0]"
  by (simp add: get_def Color_255_1_255 Color_no_args accessors)

text \<open>
  C4. The claim: \<open>fromHSV\<close> on the HSV triple of a color, and \<open>fromHSL\<close> on its HSL
  triple, give the color back within 1 per channel. The hue of \<open>Color(255, 1, 255)\<close> is
  \<open>- 60\<close>, which is in none of the six sextants of the two factories: both throw a
  TypeError.
\<close>

theorem C4_round_trip_throws:
  "call (Color (Some (Fin 255)) (Some (Fin 1)) (Some (Fin 255)))
        (\<lambda>c. fromHSV (hsvHue c) (hsvSat c) (hsvVal c)) = Inl TypeError
   \<and> call (Color (Some (Fin 255)) (Some (Fin 1)) (Some (Fin 255)))
        (\<lambda>c. fromHSL (hslHue c) (hslSat c) (hslLum c)) = Inl TypeError"
  by (simp add: call_def Color_255_1_255 accessors fromHSV_def fromHSL_def sextant_def
        from_sextant_def jle_def jseq_def Let_def)

text \<open>
  C5. The claim: \<open>rotate(a)\<close> returns a color for every \<open>a\<close>, negative ones included, the
  new hue wrapped into [0, 360). The new hue is \<open>(hue + a) % 360\<close>, negative when
  \<open>hue + a\<close> is: white rotated by \<open>- 90\<close> degrees is a TypeError.
\<close>

theorem C5_rotate_negative_throws:
  "call (Color (Some (Fin 255)) (Some (Fin 255)) (Some (Fin 255)))
        (\<lambda>c. rotate_color c (Fin (- 90)))
     = Inl TypeError"
  by (simp add: call_def Color_255_255_255 accessors rotate_color_def fromHSV_def sextant_def
        from_sextant_def num_defs)

text \<open>
  C6. The claim: \<open>typeCheck\<close> never throws, and parses a string that starts with \<open>hsv(\<close>
  or \<open>hsl(\<close> into the color it denotes. For such a string it calls \<open>fromHSV\<close> or
  \<open>fromHSL\<close> with the string as the hue: as a number the string is NaN, no sextant
  holds it, and the call throws a TypeError.
\<close>

theorem C6_typeCheck_hsv_throws:
  "typeCheck (VStr (ascii ''hsv(0, 1, 1)'')) = Inl TypeError
   \<and> typeCheck (VStr (ascii ''hsl(0, 1, 0.5)'')) = Inl TypeError"
  by (simp add: typeCheck_def slice_def ascii_def parse_defs fromHSV_def fromHSL_def sextant_def
        from_sextant_def jle_def jseq_def Let_def)

text \<open>
  C7. The claim: a ColorAlpha has an alpha in [0, 1], 1 by default, and \<open>negative()\<close>
  returns a ColorAlpha with the same red, green and blue and the alpha \<open>1 - alpha\<close>. The
  constructor passes red, green and blue to the base class and drops its fourth
  argument. So, whatever the base class is: the instance made with an alpha is the
  instance made without one; \<open>this.alpha\<close> reads the same on the instances made with the
  alphas 0.3 and 0.7; when \<open>this.rgb\<close> is an array of three numbers, \<open>negative()\<close>
  returns the instance made from these three numbers and no alpha; and \<open>negative()\<close> on
  the instances made with the alphas 0.3 and 0.7 gives the same result, where the claim
  has the alphas 0.7 and 0.3.
\<close>

theorem C7_alpha_is_dropped:
  "ColorAlpha base r g b a = ColorAlpha base r g b None
   \<and> get (ColorAlpha base r g b (Some (Fin (3 / 10)))) this_alpha
     = get (ColorAlpha base r g b (Some (Fin (7 / 10)))) this_alpha
   \<and> negative_alpha base (\<lambda>this. MArray [x, y, z]) this_alpha this
     = ColorAlpha base (Some x) (Some y) (Some z) None
   \<and> call (ColorAlpha base r g b (Some (Fin (3 / 10)))) (negative_alpha base this_rgb this_alpha)
     = call (ColorAlpha base r g b (Some (Fin (7 / 10)))) (negative_alpha base this_rgb this_alpha)"
  by (simp add: ColorAlpha_def negative_alpha_def spread_def at_index_def default_arg_def)

text \<open>
  C8. The claim: \<open>complement()\<close> is (255 - r, 255 - g, 255 - b), and twice gives the
  color back. The complement of cyan (0, 255, 255) is built as \<open>Color(255, 0, 0)\<close>, which
  is white, and the complement of white is black, not cyan.
\<close>

theorem C8_complement_of_cyan:
  "get (Color (Some (Fin 0)) (Some (Fin 255)) (Some (Fin 255))) rgb
     = Inr [Fin 0, Fin 255, Fin 255]
   \<and> get (call (Color (Some (Fin 0)) (Some (Fin 255)) (Some (Fin 255))) complement) rgb
     = Inr [Fin 255, Fin 255, Fin 255]
   \<and> get (call (call (Color (Some (Fin 0)) (Some (Fin 255)) (Some (Fin 255))) complement)
             complement) rgb
     = Inr [Fin 0, Fin 0, Fin 0]"
  by (simp add: call_def get_def Color_0_255_255 Color_255_0_0 Color_zero_args Color_no_args
        complement_def accessors jsub_def fl_numeral)

text \<open>
  C9. The claim: \<open>a.mix(b, w)\<close> equals \<open>b.mix(a, 1 - w)\<close> in the three channels, for every
  weight in [0, 1]. With \<open>a\<close> black, \<open>b\<close> the gray (5, 5, 5) and \<open>w\<close> the number 0.1:
  \<open>a.mix(b, 0.1)\<close> averages to 0.5 and rounds up to (1, 1, 1), while in
  \<open>b.mix(a, 1 - 0.1)\<close> the weight of \<open>b\<close> is \<open>1 - 0.9\<close>, just below 0.1, the average is
  just below 0.5 and rounds down to (0, 0, 0).
\<close>

theorem C9_mix_not_symmetric:
  "get (call (Color None None None)
          (\<lambda>a. call (Color (Some (Fin 5)) (Some (Fin 5)) (Some (Fin 5)))
             (\<lambda>b. mix a b (Some (fl (1 / 10)))))) rgb
     = Inr [Fin 1, Fin 1, Fin 1]
   \<and> get (call (Color None None None)
          (\<lambda>a. call (Color (Some (Fin 5)) (Some (Fin 5)) (Some (Fin 5)))
             (\<lambda>b. mix b a (Some (jsub (Fin 1) (fl (1 / 10))))))) rgb
     = Inr [Fin 0, Fin 0, Fin 0]"
  by (simp add: call_def Color_no_args Color_5_5_5 mix_def average_def accessors get_Color_rgb
        num_defs)

text \<open>
  C10, as stated: \<open>fromHex\<close> of a string that is too short is black. The string \<open>#12\<close>
  has three of the seven characters, and its red channel is 18.
\<close>

theorem C10_short_string_not_black:
  "length (ascii ''#12'') < 7
   \<and> get (fromHex (ascii ''#12'')) red = Inr (Fin 18)
   \<and> get (Color None None None) red = Inr (Fin 0)
   \<and> fromHex (ascii ''#12'') \<noteq> Color None None None"
proof -
  have r: "get (fromHex (ascii ''#12'')) red = Inr (Fin 18)"
    using Color_fields [of "Some (Fin 18)" "Some (Fin 0)" "Some (Fin 0)"]
    by (auto simp: fromHex_channels slice_def ascii_def spec_digit_value_def hex_index_def
          get_def accessors or_else_def truthy_def)
  have b: "get (Color None None None) red = Inr (Fin 0)"
    by (simp add: get_def Color_no_args accessors)
  from r b have "fromHex (ascii ''#12'') \<noteq> Color None None None"
    by auto
  with r b show ?thesis
    by (simp add: ascii_def)
qed

text \<open>
  C10, amended: \<open>fromHex\<close> returns a color for every string. The value of a channel is
  16 times the digit value of its first character plus the digit value of its second,
  where a character that is not a lowercase hexadecimal digit, or is missing, counts 0:
  this is what \<open>toDec\<close> computes, and \<open>fromHex\<close> hands the values of the channels at
  the positions 1, 3 and 5 to the constructor. The red component of the result is the
  value of the first channel, and the green and the blue component are the values of
  the second and of the third channel when that value is not 0. When the three values
  are 0, the result is black.
\<close>

theorem C10_fromHex_total:
  "fromHex s = Color (Some (Fin (of_nat (spec_channel s 1))))
                     (Some (Fin (of_nat (spec_channel s 3))))
                     (Some (Fin (of_nat (spec_channel s 5))))
   \<and> toDec x = spec_channel x 0
   \<and> (\<exists>c. fromHex s = Inr c
        \<and> red c = Fin (of_nat (spec_channel s 1))
        \<and> (spec_channel s 3 \<noteq> 0 \<longrightarrow> green c = Fin (of_nat (spec_channel s 3)))
        \<and> (spec_channel s 5 \<noteq> 0 \<longrightarrow> blue c = Fin (of_nat (spec_channel s 5))))
   \<and> (spec_channel s 1 = 0 \<and> spec_channel s 3 = 0 \<and> spec_channel s 5 = 0
        \<longrightarrow> fromHex s = Color None None None)"
proof (intro conjI impI)
  show args: "fromHex s = Color (Some (Fin (of_nat (spec_channel s 1))))
                                (Some (Fin (of_nat (spec_channel s 3))))
                                (Some (Fin (of_nat (spec_channel s 5))))"
    by (simp add: fromHex_channels spec_channel_def)
  show "toDec x = spec_channel x 0"
    by (simp add: toDec_closed spec_channel_def)
  obtain c where c: "fromHex s = Inr c"
      "RED c = or_else (Some (Fin (of_nat (spec_channel s 1)))) (Fin 0)"
      "GREEN c = or_else (Some (Fin (of_nat (spec_channel s 3))))
                   (or_else (Some (Fin (of_nat (spec_channel s 1)))) (Fin 0))"
      "BLUE c = or_else (Some (Fin (of_nat (spec_channel s 5))))
                   (or_else (Some (Fin (of_nat (spec_channel s 1)))) (Fin 0))"
    using Color_fields unfolding args by blast
  then show "\<exists>c. fromHex s = Inr c
        \<and> red c = Fin (of_nat (spec_channel s 1))
        \<and> (spec_channel s 3 \<noteq> 0 \<longrightarrow> green c = Fin (of_nat (spec_channel s 3)))
        \<and> (spec_channel s 5 \<noteq> 0 \<longrightarrow> blue c = Fin (of_nat (spec_channel s 5)))"
    by (auto simp: accessors or_else_def truthy_def)
  assume "spec_channel s 1 = 0 \<and> spec_channel s 3 = 0 \<and> spec_channel s 5 = 0"
  then show "fromHex s = Color None None None"
    by (simp add: args Color_zero_args)
qed

text \<open>
  The amended claim at \<open>#336699\<close>, whose green and blue channels are not 0, with
  \<open>toDec\<close> at \<open>ff\<close>; and at \<open>#FF0000\<close>, whose six digits are uppercase, at \<open>#\<close> and at
  the empty string, where the three channels are 0 and the result is black.
\<close>

theorem C10_fromHex_total_witness:
  "spec_channel (ascii ''#336699'') 3 \<noteq> 0
   \<and> spec_channel (ascii ''#336699'') 5 \<noteq> 0
   \<and> get (fromHex (ascii ''#336699'')) rgb = Inr [Fin 51, Fin 102, Fin 153]
   \<and> toDec (ascii ''ff'') = 255
   \<and> spec_channel (ascii ''#FF0000'') 1 = 0
   \<and> spec_channel (ascii ''#FF0000'') 3 = 0
   \<and> spec_channel (ascii ''#FF0000'') 5 = 0
   \<and> fromHex (ascii ''#FF0000'') = Color None None None
   \<and> fromHex (ascii ''#'') = Color None None None
   \<and> fromHex [] = Color None None None"
proof -
  let ?s = "ascii ''#336699''"
  have ev: "spec_channel ?s 1 = 51" "spec_channel ?s 3 = 102" "spec_channel ?s 5 = 153"
    "spec_channel (ascii ''ff'') 0 = 255"
    "spec_channel (ascii ''#FF0000'') 1 = 0" "spec_channel (ascii ''#FF0000'') 3 = 0"
    "spec_channel (ascii ''#FF0000'') 5 = 0"
    "spec_channel (ascii ''#'') 1 = 0" "spec_channel (ascii ''#'') 3 = 0"
    "spec_channel (ascii ''#'') 5 = 0"
    "spec_channel [] 1 = 0" "spec_channel [] 3 = 0" "spec_channel [] 5 = 0"
    by (simp_all add: spec_channel_def slice_def ascii_def spec_digit_value_def hex_index_def)
  have "\<exists>c. fromHex ?s = Inr c \<and> red c = Fin 51 \<and> green c = Fin 102 \<and> blue c = Fin 153"
    using C10_fromHex_total [of ?s "ascii ''ff''", THEN conjunct2, THEN conjunct2, THEN conjunct1]
    unfolding ev by simp
  then obtain c where
    "fromHex ?s = Inr c" "red c = Fin 51" "green c = Fin 102" "blue c = Fin 153"
    by blast
  then have "get (fromHex ?s) rgb = Inr [Fin 51, Fin 102, Fin 153]"
    by (simp add: get_def rgb_def)
  moreover have "toDec (ascii ''ff'') = 255"
    using C10_fromHex_total [of ?s "ascii ''ff''", THEN conjunct2, THEN conjunct1]
    unfolding ev by simp
  moreover have "fromHex (ascii ''#FF0000'') = Color None None None"
    using C10_fromHex_total [of "ascii ''#FF0000''" "[]", THEN conjunct2, THEN conjunct2, THEN conjunct2]
    unfolding ev by simp
  moreover have "fromHex (ascii ''#'') = Color None None None"
    using C10_fromHex_total [of "ascii ''#''" "[]", THEN conjunct2, THEN conjunct2, THEN conjunct2]
    unfolding ev by simp
  moreover have "fromHex [] = Color None None None"
    using C10_fromHex_total [of "[]" "[]", THEN conjunct2, THEN conjunct2, THEN conjunct2]
    unfolding ev by simp
  ultimately show ?thesis
    by (simp add: ev)
qed

end
